theory Spec2Isabelle
  imports Complex_Main
begin

section \<open>Data model of \<open>slider-provider.ts\<close>\<close>

text \<open>
  A JavaScript \<open>number\<close> is modelled as a \<^typ>\<open>real\<close>: the finite values, with exact
  arithmetic. \<open>NaN\<close> and the infinities are not values of the model, except for the
  \<open>-Infinity\<close> with which \<open>getMaxPointer\<close> starts its accumulators (type \<open>extnum\<close> below).
  \<open>Vector2\<close> of mz-math is a pair of numbers.
\<close>

type_synonym Vector2 = "real \<times> real"

text \<open>The values \<open>number | string | undefined | null\<close> that \<open>min\<close>, \<open>max\<close> and the items
  of \<open>data\<close> range over. On these values \<open>===\<close> is equality of the constructor and of its
  argument, that is HOL's \<open>=\<close>.\<close>

datatype jsval = JNum real | JStr string | JUndefined | JNull

text \<open>\<open>TData = (string | number)[] | undefined\<close>.\<close>

type_synonym TData = "jsval list option"

text \<open>\<open>TStep = ((value, percent) => number) | number | undefined | null\<close>.\<close>

datatype TStep = StepFn "jsval \<Rightarrow> real \<Rightarrow> real" | StepNum real | StepUndefined | StepNull

text \<open>\<open>IStatePointer\<close> of \<open>interfaces.ts\<close>; the optional \<open>pointerSVG\<close> (a React node) is
  left out, no function of this file reads it.\<close>

record IStatePointer =
  pointerRadii :: Vector2
  percent :: real
  pointer_id :: string
  index :: real
  bgColor :: string
  disabled :: bool
  keyboardDisabled :: bool
  mousewheelDisabled :: bool

text \<open>The part of \<open>$svg.getBoundingClientRect()\<close> that \<open>getPointerPosition\<close> reads.\<close>

record DOMRect =
  rect_left :: real
  rect_top :: real

text \<open>The result of \<open>getEllipseSegment\<close>.\<close>

record EllipseSegment =
  sliderStartPoint :: Vector2
  sliderEndPoint :: Vector2
  largeArcFlag :: nat

text \<open>
  What \<open>slider-provider.ts\<close> imports and the sources do not contain is a parameter of the
  model: the functions of the package mz-math, the conversion of a string to a number
  that \<open>getNumber\<close> relies on, and the two constants of \<open>./defaults\<close>.
\<close>

record deps =
  v2Sub :: "Vector2 \<Rightarrow> Vector2 \<Rightarrow> Vector2"
  getV2Angle :: "Vector2 \<Rightarrow> real"
  radiansToDegrees :: "real \<Rightarrow> real"
  degreesToRadians :: "real \<Rightarrow> real"
  getAnglesSub :: "real \<Rightarrow> real \<Rightarrow> real"
  convertRange :: "real \<Rightarrow> real \<Rightarrow> real \<Rightarrow> real \<Rightarrow> real \<Rightarrow> real"
  ellipseMovement :: "Vector2 \<Rightarrow> real \<Rightarrow> real \<Rightarrow> real \<Rightarrow> Vector2"
  polarToCartesian :: "Vector2 \<Rightarrow> Vector2 \<Rightarrow> real \<Rightarrow> Vector2"
  setDecimalPlaces :: "real \<Rightarrow> nat \<Rightarrow> real"
  isNumber :: "jsval \<Rightarrow> bool"
  stringToNumber :: "string \<Rightarrow> real option"
  MIN_VALUE_DEFAULT :: real
  MAX_VALUE_DEFAULT :: real

section \<open>Layout\<close>

definition getSVGSize :: "Vector2 \<Rightarrow> Vector2 \<Rightarrow> real \<Rightarrow> Vector2" where
  "getSVGSize svgRadii maxPointerRadii strokeWidth =
     (let (rxSvg, rySvg) = svgRadii;
          (rxPointer, ryPointer) = maxPointerRadii;
          diffX = max 0 (rxPointer * 2 - strokeWidth);
          diffY = max 0 (ryPointer * 2 - strokeWidth);
          svgWidth = rxSvg * 2 + strokeWidth + diffX;
          svgHeight = rySvg * 2 + strokeWidth + diffY
      in (svgWidth, svgHeight))"

definition getSVGCenter :: "deps \<Rightarrow> Vector2 \<Rightarrow> Vector2 \<Rightarrow> real \<Rightarrow> Vector2" where
  "getSVGCenter d svgRadii maxPointerRadii strokeWidth =
     (let (svgWidth, svgHeight) = getSVGSize svgRadii maxPointerRadii strokeWidth
      in (setDecimalPlaces d (svgWidth / 2) 2, setDecimalPlaces d (svgHeight / 2) 2))"

definition getEllipseSegment ::
  "deps \<Rightarrow> real \<Rightarrow> real \<Rightarrow> Vector2 \<Rightarrow> Vector2 \<Rightarrow> real \<Rightarrow> EllipseSegment" where
  "getEllipseSegment d startAngleDegrees endAngleDegrees svgRadii pointerRadii' strokeWidth =
     (let endAngleDegrees0 = endAngleDegrees;
          flag = (if endAngleDegrees0 - startAngleDegrees \<le> 180 then 0 else 1);
          endAngleDegrees1 =
            (if startAngleDegrees > endAngleDegrees0 then endAngleDegrees0 + 360
             else endAngleDegrees0);
          center = getSVGCenter d svgRadii pointerRadii' strokeWidth;
          startPoint = polarToCartesian d center svgRadii (degreesToRadians d startAngleDegrees);
          endPoint = polarToCartesian d center svgRadii (degreesToRadians d endAngleDegrees1)
      in \<lparr> sliderStartPoint = startPoint, sliderEndPoint = endPoint, largeArcFlag = flag \<rparr>)"

section \<open>Pointer position\<close>

text \<open>Modelled from the spec: \<open>isAngleInArc\<close> of \<open>./angles-provider\<close> is not among the
  sources. Section 4.1: whether a candidate angle lies within the arc \<open>[start, end]\<close>
  traversed in the increasing direction, wrapping past 360 degrees if \<open>end < start\<close>.\<close>

definition isAngleInArc :: "real \<Rightarrow> real \<Rightarrow> real \<Rightarrow> bool" where
  "isAngleInArc startAngleDeg endAngleDeg currentDegrees =
     (if endAngleDeg < startAngleDeg
      then startAngleDeg \<le> currentDegrees \<or> currentDegrees \<le> endAngleDeg
      else startAngleDeg \<le> currentDegrees \<and> currentDegrees \<le> endAngleDeg)"

text \<open>Lines 93 to 107 of \<open>getPointerPosition\<close>: the angle, in \<open>[0, 2\<pi>)\<close>, of the vector from
  the center to the mouse position relative to the SVG element.\<close>

definition pointerAngle :: "deps \<Rightarrow> DOMRect \<Rightarrow> Vector2 \<Rightarrow> Vector2 \<Rightarrow> real" where
  "pointerAngle d svg absoluteMouse center =
     (let (clientX, clientY) = absoluteMouse;
          relativeMouse = (clientX - rect_left svg, clientY - rect_top svg);
          vector = v2Sub d relativeMouse center;
          angle = getV2Angle d vector
      in if angle < 0 then angle + 2 * pi else angle)"

definition getPointerPosition ::
  "deps \<Rightarrow> DOMRect \<Rightarrow> Vector2 \<Rightarrow> Vector2 \<Rightarrow> Vector2 \<Rightarrow> real \<Rightarrow> real \<Rightarrow> Vector2 \<Rightarrow> Vector2 \<Rightarrow> Vector2" where
  "getPointerPosition d svg absoluteMouse center svgRadii startAngleDegrees endAngleDegrees
       startPoint endPoint =
     (let angle = pointerAngle d svg absoluteMouse center;
          degrees = radiansToDegrees d angle;
          angleSub1 = getAnglesSub d degrees startAngleDegrees;
          angleSub2 = getAnglesSub d degrees endAngleDegrees;
          isInArc = isAngleInArc startAngleDegrees endAngleDegrees degrees
      in if \<not> isInArc then (if angleSub1 \<le> angleSub2 then startPoint else endPoint)
         else ellipseMovement d center (convertRange d angle 0 (pi * 2) 0 pi)
                (fst svgRadii) (snd svgRadii))"

section \<open>Largest pointer\<close>

text \<open>The accumulators of \<open>getMaxPointer\<close> start at \<open>-Infinity\<close>, which \<open>Math.max\<close>
  replaces by the first finite radius.\<close>

datatype extnum = MinusInfinity | Num real

fun Math_max :: "extnum \<Rightarrow> real \<Rightarrow> extnum" where
  "Math_max MinusInfinity x = Num x"
| "Math_max (Num a) x = Num (max a x)"

fun getMaxPointer_loop :: "IStatePointer list \<Rightarrow> extnum \<Rightarrow> extnum \<Rightarrow> extnum \<times> extnum" where
  "getMaxPointer_loop [] maxX maxY = (maxX, maxY)"
| "getMaxPointer_loop (pointer # pointers) maxX maxY =
     (let (rx, ry) = pointerRadii pointer
      in getMaxPointer_loop pointers (Math_max maxX rx) (Math_max maxY ry))"

definition getMaxPointer :: "IStatePointer list \<Rightarrow> extnum \<times> extnum" where
  "getMaxPointer pointers = getMaxPointer_loop pointers MinusInfinity MinusInfinity"

section \<open>Range and step\<close>

text \<open>Modelled from the spec: \<open>getNumber\<close> of \<open>./common\<close> is not among the sources.
  Section 4.5: the value is parsed as a number, and if parsing fails the given default
  applies. A number parses as itself, a string as the runtime converts it, and
  \<open>undefined\<close> and \<open>null\<close> do not parse.\<close>

fun parseNumber :: "deps \<Rightarrow> jsval \<Rightarrow> real option" where
  "parseNumber d (JNum n) = Some n"
| "parseNumber d (JStr s) = stringToNumber d s"
| "parseNumber d JUndefined = None"
| "parseNumber d JNull = None"

definition getNumber :: "deps \<Rightarrow> jsval \<Rightarrow> real \<Rightarrow> real" where
  "getNumber d v defaultValue = (case parseNumber d v of Some n \<Rightarrow> n | None \<Rightarrow> defaultValue)"

text \<open>\<open>Array.prototype.findIndex\<close>: the index of the first item that satisfies the
  predicate, \<open>-1\<close> when there is none.\<close>

fun findIndex_from :: "('a \<Rightarrow> bool) \<Rightarrow> 'a list \<Rightarrow> int \<Rightarrow> int" where
  "findIndex_from p [] i = - 1"
| "findIndex_from p (x # xs) i = (if p x then i else findIndex_from p xs (i + 1))"

definition findIndex :: "('a \<Rightarrow> bool) \<Rightarrow> 'a list \<Rightarrow> int" where
  "findIndex p xs = findIndex_from p xs 0"

definition getMinMax :: "deps \<Rightarrow> jsval \<Rightarrow> jsval \<Rightarrow> TData \<Rightarrow> Vector2" where
  "getMinMax d minv maxv data =
     (case data of
        Some items \<Rightarrow>
          (let minIndex = findIndex (\<lambda>item. item = minv) items;
               maxIndex = findIndex (\<lambda>item. item = maxv) items;
               min1 = (if minIndex = - 1 then 0 else minIndex);
               max1 = (if maxIndex = - 1 then int (length items) - 1 else maxIndex)
           in (of_int min1, of_int max1))
      | None \<Rightarrow>
          (let min1 = getNumber d minv (MIN_VALUE_DEFAULT d);
               max1 = getNumber d maxv (MAX_VALUE_DEFAULT d);
               max2 = (if min1 > max1 then min1 + MAX_VALUE_DEFAULT d else max1);
               max3 = (if max2 < min1 then min1 + MAX_VALUE_DEFAULT d else max2)
           in (min1, max3)))"

definition getStep :: "deps \<Rightarrow> TStep \<Rightarrow> real \<Rightarrow> real \<Rightarrow> TStep" where
  "getStep d userStep minv maxv =
     (case userStep of
        StepNull \<Rightarrow> StepUndefined
      | StepUndefined \<Rightarrow> StepUndefined
      | StepFn f \<Rightarrow> StepFn f
      | StepNum n \<Rightarrow>
          (if isNumber d (JNum n)
           then (let step = getNumber d (JNum n) 1;
                     diff = \<bar>maxv - minv\<bar>
                 in if step > diff then StepUndefined else StepNum step)
           else StepUndefined))"

section \<open>A reference instance of the imports\<close>

text \<open>
  The theorems below hold for every instance of \<open>deps\<close>. To evaluate the model at concrete
  inputs, \<open>reference_deps\<close> fixes one: the usual real-valued meaning of the mz-math
  functions (the angular separation as in section 4.1 of the spec), decimal digit strings
  as the strings that convert to a number, and the range \<open>0\<close> to \<open>100\<close> as defaults.
\<close>

definition atan2 :: "real \<Rightarrow> real \<Rightarrow> real" where
  "atan2 y x =
     (if x > 0 then arctan (y / x)
      else if x < 0 \<and> y \<ge> 0 then arctan (y / x) + pi
      else if x < 0 then arctan (y / x) - pi
      else if y > 0 then pi / 2
      else if y < 0 then - pi / 2
      else 0)"

definition digitValue :: "char \<Rightarrow> nat option" where
  "digitValue c =
     (let code = (of_char c :: nat)
      in if 48 \<le> code \<and> code \<le> 57 then Some (code - 48) else None)"

fun digitsToNat :: "nat \<Rightarrow> string \<Rightarrow> nat option" where
  "digitsToNat acc [] = Some acc"
| "digitsToNat acc (c # cs) =
     (case digitValue c of None \<Rightarrow> None | Some v \<Rightarrow> digitsToNat (10 * acc + v) cs)"

definition digitString :: "string \<Rightarrow> real option" where
  "digitString s = (if s = [] then None else map_option real (digitsToNat 0 s))"

definition reference_deps :: deps where
  "reference_deps =
     \<lparr> v2Sub = (\<lambda>(x1, y1) (x2, y2). (x1 - x2, y1 - y2)),
       getV2Angle = (\<lambda>(x, y). atan2 y x),
       radiansToDegrees = (\<lambda>r. r * 180 / pi),
       degreesToRadians = (\<lambda>a. a * pi / 180),
       getAnglesSub = (\<lambda>a b. min \<bar>a - b\<bar> (360 - \<bar>a - b\<bar>)),
       convertRange = (\<lambda>v a1 b1 a2 b2. a2 + (v - a1) * (b2 - a2) / (b1 - a1)),
       ellipseMovement = (\<lambda>(cx, cy) t rx ry. (cx + rx * cos t, cy + ry * sin t)),
       polarToCartesian = (\<lambda>(cx, cy) (rx, ry) t. (cx + rx * cos t, cy + ry * sin t)),
       setDecimalPlaces = (\<lambda>x n. of_int \<lfloor>x * 10 ^ n + 1 / 2\<rfloor> / 10 ^ n),
       isNumber = (\<lambda>v. case v of JNum n \<Rightarrow> True | JStr s \<Rightarrow> digitString s \<noteq> None | _ \<Rightarrow> False),
       stringToNumber = digitString,
       MIN_VALUE_DEFAULT = 0,
       MAX_VALUE_DEFAULT = 100 \<rparr>"

definition examplePointer :: "Vector2 \<Rightarrow> IStatePointer" where
  "examplePointer r =
     \<lparr> pointerRadii = r, percent = 0, pointer_id = ''p'', index = 0, bgColor = ''#000'',
       disabled = False, keyboardDisabled = False, mousewheelDisabled = False \<rparr>"

section \<open>The angular span of the data model\<close>

text \<open>
  The data model of the spec describes \<open>largeArcFlag\<close> through the angular span from start
  to end normalised into \<open>[0, 360)\<close>, that is \<open>(endDeg - startDeg) mod 360\<close>. This
  definition follows those words; it is not part of the source.
\<close>

definition spec_span :: "real \<Rightarrow> real \<Rightarrow> real" where
  "spec_span startDeg endDeg =
     (endDeg - startDeg) - 360 * of_int \<lfloor>(endDeg - startDeg) / 360\<rfloor>"

section \<open>Evaluation of the reference instance\<close>

lemma reference_deps_sel:
  "v2Sub reference_deps (x1, y1) (x2, y2) = (x1 - x2, y1 - y2)"
  "getV2Angle reference_deps (x, y) = atan2 y x"
  "radiansToDegrees reference_deps r = r * 180 / pi"
  "getAnglesSub reference_deps a b = min \<bar>a - b\<bar> (360 - \<bar>a - b\<bar>)"
  "isNumber reference_deps (JNum n) = True"
  "stringToNumber reference_deps = digitString"
  "MIN_VALUE_DEFAULT reference_deps = 0"
  "MAX_VALUE_DEFAULT reference_deps = 100"
  by (simp_all add: reference_deps_def)

lemma pointerAngle_example:
  "pointerAngle reference_deps \<lparr>rect_left = 10, rect_top = 20\<rparr> (61, 70) (50, 50) = 0"
  by (simp add: pointerAngle_def reference_deps_sel atan2_def)

section \<open>Properties of the layout\<close>



text \<open>
  C1: \<open>getEllipseSegment\<close> computes \<open>largeArcFlag\<close> from the raw difference, as
  \<open>(endDeg - startDeg <= 180) ? 0 : 1\<close>; when \<open>startDeg > endDeg\<close> it adds 360 to the end
  angle, and the corrected angle only places the end point. In particular
  \<open>getEllipseSegment(350, 10, ...)\<close> places the end point at 370 degrees and returns the
  flag 0.
\<close>

theorem getEllipseSegment_flag_pre_wrap:
  "largeArcFlag (getEllipseSegment d s e R P w) = (if e - s \<le> 180 then 0 else 1)
   \<and> sliderStartPoint (getEllipseSegment d s e R P w)
       = polarToCartesian d (getSVGCenter d R P w) R (degreesToRadians d s)
   \<and> sliderEndPoint (getEllipseSegment d s e R P w)
       = polarToCartesian d (getSVGCenter d R P w) R
           (degreesToRadians d (if s > e then e + 360 else e))
   \<and> largeArcFlag (getEllipseSegment d 350 10 R P w) = 0
   \<and> sliderEndPoint (getEllipseSegment d 350 10 R P w)
       = polarToCartesian d (getSVGCenter d R P w) R (degreesToRadians d 370)"
  by (simp add: getEllipseSegment_def Let_def)

subsection \<open>The flag and the normalised span\<close>

lemma spec_span_range: "0 \<le> spec_span s e \<and> spec_span s e < 360"
proof -
  define x where "x = (e - s) / 360"
  define y where "y = x - of_int \<lfloor>x\<rfloor>"
  have "spec_span s e = 360 * y" by (simp add: spec_span_def x_def y_def algebra_simps)
  moreover have "0 \<le> y" "y < 1" unfolding y_def by linarith+
  ultimately show ?thesis by simp
qed

text \<open>For an arc that does not wrap (\<open>startDeg \<le> endDeg\<close>, less than a full turn) the flag
  is 1 exactly when the normalised span exceeds 180 degrees.\<close>

lemma largeArcFlag_unwrapped:
  assumes "s \<le> e" "e - s < 360"
  shows "largeArcFlag (getEllipseSegment d s e R P w) = 1 \<longleftrightarrow> 180 < spec_span s e"
proof -
  have "\<lfloor>(e - s) / 360\<rfloor> = 0" using assms by (simp add: floor_eq_iff)
  then show ?thesis by (simp add: getEllipseSegment_def Let_def spec_span_def)
qed

text \<open>For an arc that wraps through 0 degrees the flag is always 0, also when the arc
  spans more than 180 degrees, which is the case when start and end are less than 180
  degrees apart.\<close>

lemma largeArcFlag_wrapped:
  assumes "e < s" "s - e < 180"
  shows "largeArcFlag (getEllipseSegment d s e R P w) = 0 \<and> 180 < spec_span s e"
proof -
  have "\<lfloor>(e - s) / 360\<rfloor> = - 1" using assms by (simp add: floor_eq_iff)
  then show ?thesis using assms by (simp add: getEllipseSegment_def Let_def spec_span_def)
qed

text \<open>
  C2: the \<open>largeArcFlag\<close> of \<open>getEllipseSegment\<close> is 1 if and only if the angular span from
  start to end, normalised into \<open>[0, 360)\<close>, exceeds 180 degrees. The code does not do this
  for the arc from 270 to 180 degrees, which wraps through 0: its span is 270 degrees and
  the flag returned is 0.
\<close>

theorem getEllipseSegment_flag_wrapped_arc:
  "largeArcFlag (getEllipseSegment d 270 180 R P w) = 0
   \<and> spec_span 270 180 = 270 \<and> 180 < spec_span 270 180"
  by (simp add: getEllipseSegment_def Let_def spec_span_def)

section \<open>Properties of the pointer position\<close>

text \<open>
  C8: when the angle derived from the input falls outside the active arc,
  \<open>getPointerPosition\<close> returns whichever of \<open>sliderStartPoint\<close> and \<open>sliderEndPoint\<close> has
  the smaller angular separation (\<open>getAnglesSub\<close>) from that angle, and
  \<open>sliderStartPoint\<close> when the two separations are equal.
\<close>

theorem getPointerPosition_outside_arc:
  fixes d :: deps and svg :: DOMRect and mouse center :: Vector2
  defines "degrees \<equiv> radiansToDegrees d (pointerAngle d svg mouse center)"
  assumes "\<not> isAngleInArc startDeg endDeg degrees"
  shows "(getAnglesSub d degrees startDeg < getAnglesSub d degrees endDeg \<longrightarrow>
          getPointerPosition d svg mouse center svgRadii startDeg endDeg startPoint endPoint
            = startPoint)
       \<and> (getAnglesSub d degrees endDeg < getAnglesSub d degrees startDeg \<longrightarrow>
          getPointerPosition d svg mouse center svgRadii startDeg endDeg startPoint endPoint
            = endPoint)
       \<and> (getAnglesSub d degrees startDeg = getAnglesSub d degrees endDeg \<longrightarrow>
          getPointerPosition d svg mouse center svgRadii startDeg endDeg startPoint endPoint
            = startPoint)"
  using assms by (simp add: getPointerPosition_def Let_def)

theorem getPointerPosition_outside_arc_witness:
  "\<not> isAngleInArc 90 270
       (radiansToDegrees reference_deps
          (pointerAngle reference_deps \<lparr>rect_left = 10, rect_top = 20\<rparr> (61, 70) (50, 50)))
   \<and> getAnglesSub reference_deps
       (radiansToDegrees reference_deps
          (pointerAngle reference_deps \<lparr>rect_left = 10, rect_top = 20\<rparr> (61, 70) (50, 50))) 90
     = getAnglesSub reference_deps
       (radiansToDegrees reference_deps
          (pointerAngle reference_deps \<lparr>rect_left = 10, rect_top = 20\<rparr> (61, 70) (50, 50))) 270
   \<and> getPointerPosition reference_deps \<lparr>rect_left = 10, rect_top = 20\<rparr> (61, 70) (50, 50)
        (40, 30) 90 270 (50, 80) (50, 20) = (50, 80)"
proof -
  have h: "\<not> isAngleInArc 90 270
       (radiansToDegrees reference_deps
          (pointerAngle reference_deps \<lparr>rect_left = 10, rect_top = 20\<rparr> (61, 70) (50, 50)))"
    by (simp add: pointerAngle_example reference_deps_sel isAngleInArc_def)
  have e: "getAnglesSub reference_deps
       (radiansToDegrees reference_deps
          (pointerAngle reference_deps \<lparr>rect_left = 10, rect_top = 20\<rparr> (61, 70) (50, 50))) 90
     = getAnglesSub reference_deps
       (radiansToDegrees reference_deps
          (pointerAngle reference_deps \<lparr>rect_left = 10, rect_top = 20\<rparr> (61, 70) (50, 50))) 270"
    by (simp add: pointerAngle_example reference_deps_sel)
  from getPointerPosition_outside_arc [OF h, of "(40, 30)" "(50, 80)" "(50, 20)"] e h
  show ?thesis by blast
qed

section \<open>Properties of the largest pointer\<close>

lemma getMaxPointer_loop_Num:
  "getMaxPointer_loop ps (Num a) (Num b)
     = (Num (fold max (map (fst \<circ> pointerRadii) ps) a),
        Num (fold max (map (snd \<circ> pointerRadii) ps) b))"
  by (induction ps arbitrary: a b) (simp_all add: case_prod_beta max.commute)

text \<open>
  C10: on an empty array of pointers \<open>getMaxPointer\<close> returns \<open>[-Infinity, -Infinity]\<close>,
  the initial accumulators, and raises no error; on a non-empty array it returns the
  componentwise maximum of the pointers' \<open>pointerRadii\<close>.
\<close>

theorem getMaxPointer_componentwise_max:
  "getMaxPointer [] = (MinusInfinity, MinusInfinity)
   \<and> (pointers \<noteq> [] \<longrightarrow>
        getMaxPointer pointers
          = (Num (Max (fst ` pointerRadii ` set pointers)),
             Num (Max (snd ` pointerRadii ` set pointers))))"
proof (intro conjI impI)
  show "getMaxPointer [] = (MinusInfinity, MinusInfinity)"
    by (simp add: getMaxPointer_def)
next
  assume "pointers \<noteq> []"
  then obtain p ps where ps: "pointers = p # ps" by (cases pointers) auto
  have "getMaxPointer (p # ps)
      = (Num (fold max (map (fst \<circ> pointerRadii) ps) (fst (pointerRadii p))),
         Num (fold max (map (snd \<circ> pointerRadii) ps) (snd (pointerRadii p))))"
    by (simp add: getMaxPointer_def case_prod_beta getMaxPointer_loop_Num)
  moreover have "fold max (map (fst \<circ> pointerRadii) ps) (fst (pointerRadii p))
      = Max (set (fst (pointerRadii p) # map (fst \<circ> pointerRadii) ps))"
    by (rule Max.set_eq_fold [symmetric])
  moreover have "fold max (map (snd \<circ> pointerRadii) ps) (snd (pointerRadii p))
      = Max (set (snd (pointerRadii p) # map (snd \<circ> pointerRadii) ps))"
    by (rule Max.set_eq_fold [symmetric])
  ultimately show "getMaxPointer pointers
          = (Num (Max (fst ` pointerRadii ` set pointers)),
             Num (Max (snd ` pointerRadii ` set pointers)))"
    by (simp add: ps image_comp)
qed

theorem getMaxPointer_componentwise_max_witness:
  "[examplePointer (2, 3), examplePointer (5, 1), examplePointer (4, 4)] \<noteq> []
   \<and> getMaxPointer [examplePointer (2, 3), examplePointer (5, 1), examplePointer (4, 4)]
       = (Num 5, Num 4)"
  using getMaxPointer_componentwise_max
    [of "[examplePointer (2, 3), examplePointer (5, 1), examplePointer (4, 4)]"]
  by (simp add: examplePointer_def)

section \<open>Properties of the range\<close>

lemma findIndex_from_none:
  "\<forall>x\<in>set xs. \<not> p x \<Longrightarrow> findIndex_from p xs i = - 1"
  by (induction xs arbitrary: i) auto

lemma findIndex_from_first:
  "\<exists>x\<in>set xs. p x \<Longrightarrow>
     \<exists>k<length xs. findIndex_from p xs i = i + int k \<and> p (xs ! k) \<and> (\<forall>j<k. \<not> p (xs ! j))"
proof (induction xs arbitrary: i)
  case Nil
  then show ?case by simp
next
  case (Cons x xs)
  show ?case
  proof (cases "p x")
    case True
    then have "findIndex_from p (x # xs) i = i + int 0 \<and> p ((x # xs) ! 0)
        \<and> (\<forall>j<0. \<not> p ((x # xs) ! j))" by simp
    then show ?thesis by blast
  next
    case False
    with Cons.prems have "\<exists>y\<in>set xs. p y" by auto
    from Cons.IH [OF this, of "i + 1"] obtain k where k: "k < length xs"
      "findIndex_from p xs (i + 1) = i + 1 + int k" "p (xs ! k)" "\<forall>j<k. \<not> p (xs ! j)"
      by blast
    have "\<forall>j<Suc k. \<not> p ((x # xs) ! j)"
      using False k(4) by (auto simp: less_Suc_eq_0_disj)
    with k False have "Suc k < length (x # xs) \<and> findIndex_from p (x # xs) i = i + int (Suc k)
        \<and> p ((x # xs) ! Suc k) \<and> (\<forall>j<Suc k. \<not> p ((x # xs) ! j))" by simp
    then show ?thesis by blast
  qed
qed

lemma findIndex_none: "v \<notin> set xs \<Longrightarrow> findIndex (\<lambda>item. item = v) xs = - 1"
  unfolding findIndex_def by (rule findIndex_from_none) auto

lemma findIndex_first:
  assumes "v \<in> set xs"
  shows "\<exists>k<length xs. findIndex (\<lambda>item. item = v) xs = int k \<and> xs ! k = v
           \<and> (\<forall>j<k. xs ! j \<noteq> v)"
proof -
  have "\<exists>x\<in>set xs. x = v" using assms by simp
  from findIndex_from_first [where p = "\<lambda>item. item = v", OF this, of 0]
  show ?thesis by (simp add: findIndex_def)
qed

lemma getMinMax_fst_found:
  assumes "findIndex (\<lambda>item. item = minv) items = int k"
  shows "fst (getMinMax d minv maxv (Some items)) = real k"
  using assms by (simp add: getMinMax_def Let_def)

lemma getMinMax_snd_found:
  assumes "findIndex (\<lambda>item. item = maxv) items = int k"
  shows "snd (getMinMax d minv maxv (Some items)) = real k"
  using assms by (simp add: getMinMax_def Let_def)

lemma getMinMax_snd_missing:
  assumes "items \<noteq> []" "maxv \<notin> set items"
  shows "snd (getMinMax d minv maxv (Some items)) = real (length items - 1)"
proof -
  have "snd (getMinMax d minv maxv (Some items)) = real_of_int (int (length items) - 1)"
    using assms(2) by (simp add: getMinMax_def Let_def findIndex_none)
  also have "\<dots> = real (length items - 1)"
    using assms(1) by (cases items) simp_all
  finally show ?thesis .
qed

text \<open>
  C4: for a non-empty \<open>data\<close> array, \<open>getMinMax(min, max, data)\<close> resolves \<open>min\<close> and \<open>max\<close>
  to the index of their first strictly equal item of \<open>data\<close>; a \<open>min\<close> without a match
  resolves to 0 and a \<open>max\<close> without a match to the last index, \<open>data.length - 1\<close>; no
  correction of an inversion takes place, so \<open>getMinMax('b', 'a', ['a','b','c'])\<close> returns
  \<open>[1, 0]\<close>.
\<close>

theorem getMinMax_categorical:
  assumes "items \<noteq> []"
  shows "(minv \<in> set items \<longrightarrow>
            (\<exists>i<length items. fst (getMinMax d minv maxv (Some items)) = real i
               \<and> items ! i = minv \<and> (\<forall>j<i. items ! j \<noteq> minv)))
       \<and> (minv \<notin> set items \<longrightarrow> fst (getMinMax d minv maxv (Some items)) = 0)
       \<and> (maxv \<in> set items \<longrightarrow>
            (\<exists>i<length items. snd (getMinMax d minv maxv (Some items)) = real i
               \<and> items ! i = maxv \<and> (\<forall>j<i. items ! j \<noteq> maxv)))
       \<and> (maxv \<notin> set items \<longrightarrow>
            snd (getMinMax d minv maxv (Some items)) = real (length items - 1))
       \<and> getMinMax d (JStr ''b'') (JStr ''a'') (Some [JStr ''a'', JStr ''b'', JStr ''c''])
           = (1, 0)"
proof (intro conjI impI)
  assume "minv \<in> set items"
  from findIndex_first [OF this] obtain k where k: "k < length items"
    "findIndex (\<lambda>item. item = minv) items = int k" "items ! k = minv"
    "\<forall>j<k. items ! j \<noteq> minv" by (elim exE conjE)
  have "k < length items \<and> fst (getMinMax d minv maxv (Some items)) = real k
      \<and> items ! k = minv \<and> (\<forall>j<k. items ! j \<noteq> minv)"
    using k(1) getMinMax_fst_found [OF k(2)] k(3) k(4) by (intro conjI)
  then show "\<exists>i<length items. fst (getMinMax d minv maxv (Some items)) = real i
               \<and> items ! i = minv \<and> (\<forall>j<i. items ! j \<noteq> minv)" by (rule exI)
next
  assume "minv \<notin> set items"
  then show "fst (getMinMax d minv maxv (Some items)) = 0"
    by (simp add: getMinMax_def Let_def findIndex_none)
next
  assume "maxv \<in> set items"
  from findIndex_first [OF this] obtain k where k: "k < length items"
    "findIndex (\<lambda>item. item = maxv) items = int k" "items ! k = maxv"
    "\<forall>j<k. items ! j \<noteq> maxv" by (elim exE conjE)
  have "k < length items \<and> snd (getMinMax d minv maxv (Some items)) = real k
      \<and> items ! k = maxv \<and> (\<forall>j<k. items ! j \<noteq> maxv)"
    using k(1) getMinMax_snd_found [OF k(2)] k(3) k(4) by (intro conjI)
  then show "\<exists>i<length items. snd (getMinMax d minv maxv (Some items)) = real i
               \<and> items ! i = maxv \<and> (\<forall>j<i. items ! j \<noteq> maxv)" by (rule exI)
next
  assume "maxv \<notin> set items"
  with assms show "snd (getMinMax d minv maxv (Some items)) = real (length items - 1)"
    by (rule getMinMax_snd_missing)
next
  show "getMinMax d (JStr ''b'') (JStr ''a'') (Some [JStr ''a'', JStr ''b'', JStr ''c''])
           = (1, 0)"
    by (simp add: getMinMax_def findIndex_def)
qed

theorem getMinMax_categorical_witness:
  "[JNum 3, JStr ''x'', JNum 3] \<noteq> []
   \<and> getMinMax reference_deps (JNum 3) (JStr ''q'') (Some [JNum 3, JStr ''x'', JNum 3]) = (0, 2)
   \<and> getMinMax reference_deps (JStr ''q'') (JNum 3) (Some [JNum 3, JStr ''x'', JNum 3]) = (0, 0)"
  using getMinMax_categorical [of "[JNum 3, JStr ''x'', JNum 3]" "JNum 3" reference_deps "JStr ''q''"]
  by (simp add: getMinMax_def findIndex_def)

text \<open>
  C5: without \<open>data\<close>, \<open>getMinMax\<close> parses \<open>min\<close> and \<open>max\<close> as numbers and substitutes
  \<open>MIN_VALUE_DEFAULT\<close> and \<open>MAX_VALUE_DEFAULT\<close> when parsing fails, so
  \<open>getMinMax(undefined, undefined)\<close> returns \<open>[MIN_VALUE_DEFAULT, MAX_VALUE_DEFAULT]\<close>
  (the two constants being in that order); whenever the parsed \<open>min\<close> exceeds the parsed
  \<open>max\<close> it forces \<open>max = min + MAX_VALUE_DEFAULT\<close>, so \<open>getMinMax(5, 2)\<close> returns
  \<open>[5, 5 + MAX_VALUE_DEFAULT]\<close>.
\<close>

theorem getMinMax_numeric:
  "fst (getMinMax d minv maxv None)
     = (case parseNumber d minv of Some n \<Rightarrow> n | None \<Rightarrow> MIN_VALUE_DEFAULT d)
   \<and> snd (getMinMax d minv maxv None)
     = (if getNumber d minv (MIN_VALUE_DEFAULT d) > getNumber d maxv (MAX_VALUE_DEFAULT d)
        then getNumber d minv (MIN_VALUE_DEFAULT d) + MAX_VALUE_DEFAULT d
        else (case parseNumber d maxv of Some n \<Rightarrow> n | None \<Rightarrow> MAX_VALUE_DEFAULT d))
   \<and> (MIN_VALUE_DEFAULT d \<le> MAX_VALUE_DEFAULT d \<longrightarrow>
        getMinMax d JUndefined JUndefined None = (MIN_VALUE_DEFAULT d, MAX_VALUE_DEFAULT d))
   \<and> getMinMax d (JNum 5) (JNum 2) None = (5, 5 + MAX_VALUE_DEFAULT d)"
  by (simp add: getMinMax_def getNumber_def Let_def)

theorem getMinMax_numeric_witness:
  "MIN_VALUE_DEFAULT reference_deps \<le> MAX_VALUE_DEFAULT reference_deps
   \<and> getMinMax reference_deps JUndefined JUndefined None = (0, 100)
   \<and> getMinMax reference_deps (JNum 5) (JNum 2) None = (5, 105)
   \<and> getMinMax reference_deps (JStr ''7'') (JStr ''seven'') None = (7, 100)"
  using getMinMax_numeric [of reference_deps JUndefined JUndefined]
  by (simp add: getMinMax_def getNumber_def reference_deps_sel digitString_def digitValue_def)

text \<open>
  C3, as amended: without \<open>data\<close>, and with \<open>MAX_VALUE_DEFAULT\<close> not negative, the pair
  returned by \<open>getMinMax\<close> satisfies \<open>min \<le> max\<close>; whenever the parsed input violates this,
  the \<open>min\<close> component is kept and the \<open>max\<close> component becomes \<open>min + MAX_VALUE_DEFAULT\<close>.
  With \<open>data\<close> the two indices are returned as found, in either order.
\<close>

theorem getMinMax_numeric_ordered:
  assumes "0 \<le> MAX_VALUE_DEFAULT d"
  shows "fst (getMinMax d minv maxv None) \<le> snd (getMinMax d minv maxv None)
       \<and> (getNumber d minv (MIN_VALUE_DEFAULT d) > getNumber d maxv (MAX_VALUE_DEFAULT d) \<longrightarrow>
            getMinMax d minv maxv None
              = (getNumber d minv (MIN_VALUE_DEFAULT d),
                 getNumber d minv (MIN_VALUE_DEFAULT d) + MAX_VALUE_DEFAULT d))"
  using assms by (simp add: getMinMax_def Let_def)

theorem getMinMax_numeric_ordered_witness:
  "0 \<le> MAX_VALUE_DEFAULT reference_deps
   \<and> getNumber reference_deps (JNum 9) (MIN_VALUE_DEFAULT reference_deps)
       > getNumber reference_deps (JNum 4) (MAX_VALUE_DEFAULT reference_deps)
   \<and> getMinMax reference_deps (JNum 9) (JNum 4) None = (9, 109)
   \<and> fst (getMinMax reference_deps (JNum 9) (JNum 4) None)
       \<le> snd (getMinMax reference_deps (JNum 9) (JNum 4) None)"
  using getMinMax_numeric_ordered [of reference_deps "JNum 9" "JNum 4"]
  by (simp add: getMinMax_def getNumber_def reference_deps_sel)

text \<open>The statement of C3 for every input fails with \<open>data\<close>:
  \<open>getMinMax('b', 'a', ['a','b','c'])\<close> is \<open>[1, 0]\<close>.\<close>

theorem getMinMax_categorical_inverted:
  "\<not> fst (getMinMax reference_deps (JStr ''b'') (JStr ''a'')
            (Some [JStr ''a'', JStr ''b'', JStr ''c'']))
      \<le> snd (getMinMax reference_deps (JStr ''b'') (JStr ''a'')
            (Some [JStr ''a'', JStr ''b'', JStr ''c'']))"
  by (simp add: getMinMax_def findIndex_def)

section \<open>Properties of the step\<close>

text \<open>
  C6: \<open>getStep\<close> returns \<open>undefined\<close> when \<open>userStep\<close> is \<open>null\<close> or \<open>undefined\<close>, and
  \<open>userStep\<close> unchanged when it is a function; a number is returned unchanged unless it
  exceeds \<open>|max - min|\<close>, in which case \<open>undefined\<close> is returned, so that
  \<open>getStep(1000, 0, 10)\<close> is \<open>undefined\<close> and \<open>getStep(5, 0, 10)\<close> is 5. The type \<open>TStep\<close> has
  no other values. The imported \<open>isNumber\<close> is taken to accept every number of the model.
\<close>

theorem getStep_cases:
  assumes "\<And>x. isNumber d (JNum x)"
  shows "getStep d StepNull minv maxv = StepUndefined
       \<and> getStep d StepUndefined minv maxv = StepUndefined
       \<and> getStep d (StepFn f) minv maxv = StepFn f
       \<and> getStep d (StepNum n) minv maxv
           = (if n > \<bar>maxv - minv\<bar> then StepUndefined else StepNum n)
       \<and> getStep d (StepNum 1000) 0 10 = StepUndefined
       \<and> getStep d (StepNum 5) 0 10 = StepNum 5"
  using assms by (simp add: getStep_def getNumber_def Let_def)

theorem getStep_cases_witness:
  "(\<forall>x. isNumber reference_deps (JNum x))
   \<and> getStep reference_deps (StepNum 3) 2 8 = StepNum 3
   \<and> getStep reference_deps (StepNum 7) 2 8 = StepUndefined
   \<and> getStep reference_deps (StepNum 6) 2 8 = StepNum 6
   \<and> getStep reference_deps StepNull 2 8 = StepUndefined"
proof -
  have h: "\<And>x. isNumber reference_deps (JNum x)" by (simp add: reference_deps_sel)
  have "getStep reference_deps (StepNum 3) 2 8 = StepNum 3"
    using getStep_cases [of reference_deps 2 8 "\<lambda>v p. p" 3, OF h] by simp
  moreover have "getStep reference_deps (StepNum 7) 2 8 = StepUndefined"
    using getStep_cases [of reference_deps 2 8 "\<lambda>v p. p" 7, OF h] by simp
  moreover have "getStep reference_deps (StepNum 6) 2 8 = StepNum 6"
    using getStep_cases [of reference_deps 2 8 "\<lambda>v p. p" 6, OF h] by simp
  moreover have "getStep reference_deps StepNull 2 8 = StepUndefined"
    using getStep_cases [of reference_deps 2 8 "\<lambda>v p. p" 6, OF h] by simp
  ultimately show ?thesis using h by simp
qed

end
